theory Spec2Isabelle
  imports Complex_Main
begin

section \<open>Python values used by the converter\<close>

text \<open>
  The development embeds \<^verbatim>\<open>CurrencyConverter\<close> of \<^verbatim>\<open>converter.py\<close>. Its methods read
  the clock, the cache directory and the rate provider, so every method takes the world
  and returns the world it leaves behind, next to either the exception it raises
  (\<open>Inl\<close>) or the value it returns (\<open>Inr\<close>).

  A naive \<^verbatim>\<open>datetime\<close> is the number of microseconds from \<^verbatim>\<open>datetime.min\<close>, the start
  of year 1, to it; the numbers from 0 up to, not including, \<open>datetime_max\<close> (the end of
  year 9999, 3652059 days) are the ones Python can represent. A \<^verbatim>\<open>timedelta\<close> is a
  number of microseconds.
\<close>

type_synonym datetime = int

definition datetime_max :: int where
  "datetime_max = 315537897600000000"

text \<open>
  Python's \<^verbatim>\<open>float\<close> is not fixed here: \<open>'f\<close> is the type of floats, and the
  built-ins whose results depend on it, on the calendar or on the interpreter's wording
  are taken as given: \<^verbatim>\<open>float(s)\<close> on a string (\<open>None\<close> where Python raises
  \<^verbatim>\<open>ValueError\<close>), the product of two floats, \<^verbatim>\<open>str(t.date())\<close>, and the messages of the
  \<^verbatim>\<open>OverflowError\<close> that \<^verbatim>\<open>timedelta(seconds=n)\<close> and the sum of a \<^verbatim>\<open>datetime\<close> and a
  \<^verbatim>\<open>timedelta\<close> raise. Every theorem below holds for all of them.
\<close>

record 'f builtins =
  float_of_str :: "string \<Rightarrow> 'f option"
  float_mul :: "'f \<Rightarrow> 'f \<Rightarrow> 'f"
  str_of_date :: "datetime \<Rightarrow> string"
  timedelta_overflow :: "int \<Rightarrow> string"
  datetime_overflow :: string

text \<open>The argument \<^verbatim>\<open>amount: Union[float, str]\<close> and the call \<^verbatim>\<open>float(amount)\<close>.\<close>

datatype 'f amount = Float 'f | Str string

fun py_float :: "'f builtins \<Rightarrow> 'f amount \<Rightarrow> 'f option" where
  "py_float py (Float x) = Some x"
| "py_float py (Str s) = float_of_str py s"

text \<open>\<^verbatim>\<open>str.upper\<close> on the ASCII letters; a currency code has no other letters.\<close>

definition upper_char :: "char \<Rightarrow> char" where
  "upper_char c =
     (let n = of_char c :: nat in if 97 \<le> n \<and> n \<le> 122 then char_of (n - 32) else c)"

definition upper :: "string \<Rightarrow> string" where
  "upper s = map upper_char s"

text \<open>
  The dictionaries with the keys \<^verbatim>\<open>'base'\<close>, \<^verbatim>\<open>'rates'\<close>, \<^verbatim>\<open>'date'\<close> and \<^verbatim>\<open>'expires_at'\<close>:
  what the provider answers and what a cache file holds. By the provider's contract
  its answer has a base, which is a string, and rates, a mapping from currency codes to
  floats; it may lack the other two keys. The text that
  \<^verbatim>\<open>isoformat\<close> writes under \<^verbatim>\<open>'expires_at'\<close> is identified with the \<^verbatim>\<open>datetime\<close> that
  \<^verbatim>\<open>fromisoformat\<close> reads back from it.
\<close>

record 'f rates_dict =
  base :: string
  rates :: "string \<rightharpoonup> 'f"
  date :: "string option"
  expires_at :: "datetime option"

text \<open>
  The exceptions the methods raise or let through. \<^verbatim>\<open>InvalidCurrencyError\<close> and
  \<^verbatim>\<open>APIError\<close> are imported from the module \<^verbatim>\<open>exceptions\<close>; only their names and
  messages are used. \<^verbatim>\<open>OSError\<close> is what \<^verbatim>\<open>open\<close> raises, \<^verbatim>\<open>JSONDecodeError\<close> what
  \<^verbatim>\<open>json.load\<close> raises, \<^verbatim>\<open>KeyError\<close> what a missing key raises, \<^verbatim>\<open>OverflowError\<close> what
  the arithmetic on dates raises.
\<close>

datatype error =
    ValueError string
  | InvalidCurrencyError string
  | APIError string
  | OSError string
  | JSONDecodeError string
  | KeyError string
  | OverflowError string

text \<open>\<^verbatim>\<open>str(e)\<close> of an exception.\<close>

fun str_error :: "error \<Rightarrow> string" where
  "str_error (ValueError m) = m"
| "str_error (InvalidCurrencyError m) = m"
| "str_error (APIError m) = m"
| "str_error (OSError m) = m"
| "str_error (JSONDecodeError m) = m"
| "str_error (KeyError k) = [CHR 0x27] @ k @ [CHR 0x27]"
| "str_error (OverflowError m) = m"

text \<open>
  \<^verbatim>\<open>timedelta(seconds=n)\<close> for an integer \<open>n\<close>: the days of the result are \<open>n\<close> divided by
  86400, rounded down, and Python raises \<^verbatim>\<open>OverflowError\<close> when their magnitude exceeds
  999999999.
\<close>

definition timedelta_seconds :: "'f builtins \<Rightarrow> int \<Rightarrow> error + int" where
  "timedelta_seconds py n =
     (if 999999999 < abs (n div 86400) then Inl (OverflowError (timedelta_overflow py n))
      else Inr (n * 1000000))"

text \<open>
  The sum of a \<^verbatim>\<open>datetime\<close> and a \<^verbatim>\<open>timedelta\<close>: Python raises \<^verbatim>\<open>OverflowError\<close> when the
  result is before year 1 or after year 9999.
\<close>

definition datetime_add :: "'f builtins \<Rightarrow> datetime \<Rightarrow> int \<Rightarrow> error + datetime" where
  "datetime_add py t d =
     (if t + d < 0 \<or> datetime_max \<le> t + d then Inl (OverflowError (datetime_overflow py))
      else Inr (t + d))"

section \<open>The world: clock, cache directory, log\<close>

text \<open>
  A path of the cache directory is absent or holds a file. A file either cannot be
  opened for reading (\<^verbatim>\<open>open\<close> raises \<^verbatim>\<open>OSError\<close> with the given message), or holds text
  that \<^verbatim>\<open>json.load\<close> rejects (with the given message), or holds a JSON object, which
  \<^verbatim>\<open>json.load\<close> returns as the dictionary that \<^verbatim>\<open>json.dump\<close> was given.
\<close>

datatype 'f contents = Unreadable string | Malformed string | Entry "'f rates_dict"

text \<open>
  Writing a cache file can fail in two places. \<^verbatim>\<open>open(cache_file, 'w')\<close> can raise
  \<^verbatim>\<open>OSError\<close> with the given message, and then the file is as it was. Or \<^verbatim>\<open>open\<close>
  succeeds, which empties the file, and \<^verbatim>\<open>json.dump\<close> or the closing of the file raises
  \<^verbatim>\<open>OSError\<close> with the first message: then the file holds a beginning of the JSON text,
  which \<^verbatim>\<open>json.load\<close> rejects with the second message.
\<close>

datatype write_failure = OpenFails string | DumpFails string string

text \<open>
  What a call does to its surroundings is recorded in order: a test of a path, an
  \<^verbatim>\<open>open\<close> for reading or writing, a request to the provider, a line of the log.
\<close>

datatype event =
    FileExists string
  | OpenRead string
  | OpenWrite string
  | GetRates string
  | LogInfo string
  | LogError string

text \<open>
  \<open>now\<close> is what \<^verbatim>\<open>datetime.now()\<close> returns; \<open>write_error\<close> gives, for a path that
  cannot be written, the way in which writing it fails.
\<close>

record 'f world =
  now :: datetime
  files :: "string \<rightharpoonup> 'f contents"
  write_error :: "string \<rightharpoonup> write_failure"
  trace :: "event list"

definition emit :: "event \<Rightarrow> 'f world \<Rightarrow> 'f world" where
  "emit e w = w\<lparr>trace := trace w @ [e]\<rparr>"

text \<open>
  The rate provider, \<^verbatim>\<open>self.api_client\<close>. Its class is defined outside
  \<^verbatim>\<open>converter.py\<close>, so its behaviour is a parameter of every definition below.
  Awaiting \<^verbatim>\<open>get_rates(base)\<close> started at some clock reading ends at another one with
  the provider's dictionary (\<open>Inr\<close>) or with an exception, of which only \<^verbatim>\<open>str(e)\<close> is
  used (\<open>Inl\<close>). \<open>cache_timeout\<close> is the number of seconds a fetched dictionary stays
  valid.
\<close>

record 'f api_client =
  get_rates :: "string \<Rightarrow> datetime \<Rightarrow> (string + 'f rates_dict) \<times> datetime"
  cache_timeout :: int

text \<open>
  The converter object. Its attribute \<^verbatim>\<open>self.rates\<close> is set to an empty dictionary
  by the constructor and never read or written again; it is left out.
\<close>

record 'f converter =
  api_client :: "'f api_client"
  cache_dir :: string

section \<open>The methods of CurrencyConverter\<close>

definition get_cache_file :: "'f converter \<Rightarrow> string \<Rightarrow> string" where
  "get_cache_file self base_currency =
     cache_dir self @ ''/'' @ upper base_currency @ ''_rates.json''"

text \<open>
  \<^verbatim>\<open>_load_cached_rates\<close>: nothing in it catches an exception, so a file that cannot be
  opened or parsed, and a dictionary without \<^verbatim>\<open>'expires_at'\<close>, end the call with the
  exception.
\<close>

definition load_cached_rates ::
  "'f converter \<Rightarrow> string \<Rightarrow> 'f world \<Rightarrow> (error + 'f rates_dict option) \<times> 'f world" where
  "load_cached_rates self base_currency w =
     (let cache_file = get_cache_file self base_currency;
          w1 = emit (FileExists cache_file) w
      in case files w1 cache_file of
           None \<Rightarrow> (Inr None, w1)
         | Some f \<Rightarrow>
             (let w2 = emit (OpenRead cache_file) w1
              in case f of
                   Unreadable m \<Rightarrow> (Inl (OSError m), w2)
                 | Malformed m \<Rightarrow> (Inl (JSONDecodeError m), w2)
                 | Entry data \<Rightarrow>
                     (case expires_at data of
                        None \<Rightarrow> (Inl (KeyError ''expires_at''), w2)
                      | Some e \<Rightarrow>
                          if now w2 < e then (Inr (Some data), w2) else (Inr None, w2))))"

text \<open>\<^verbatim>\<open>str(e)\<close> of the \<^verbatim>\<open>OSError\<close> that a failing write raises.\<close>

fun failure_str :: "write_failure \<Rightarrow> string" where
  "failure_str (OpenFails m) = m"
| "failure_str (DumpFails m left) = m"

text \<open>
  \<^verbatim>\<open>_save_rates_to_cache\<close>: the file is left alone when it does not open for writing,
  and left with a beginning of the new text when the write fails after that.
\<close>

definition save_rates_to_cache ::
  "'f builtins \<Rightarrow> 'f converter \<Rightarrow> string \<Rightarrow> 'f rates_dict \<Rightarrow> datetime \<Rightarrow> 'f world
     \<Rightarrow> (error + unit) \<times> 'f world" where
  "save_rates_to_cache py self base_currency r expires w =
     (let cache_file = get_cache_file self base_currency;
          data = \<lparr>base = base r,
                  rates = rates r,
                  date = Some (case date r of Some d \<Rightarrow> d | None \<Rightarrow> str_of_date py (now w)),
                  expires_at = Some expires\<rparr>;
          w1 = emit (OpenWrite cache_file) w
      in case write_error w1 cache_file of
           Some (OpenFails m) \<Rightarrow> (Inl (OSError m), w1)
         | Some (DumpFails m left) \<Rightarrow>
             (Inl (OSError m), w1\<lparr>files := (files w1)(cache_file \<mapsto> Malformed left)\<rparr>)
         | None \<Rightarrow> (Inr (), w1\<lparr>files := (files w1)(cache_file \<mapsto> Entry data)\<rparr>))"

text \<open>The \<^verbatim>\<open>except Exception\<close> clause of \<^verbatim>\<open>get_exchange_rates\<close>.\<close>

definition fetch_failed :: "string \<Rightarrow> 'f world \<Rightarrow> (error + 'f rates_dict) \<times> 'f world" where
  "fetch_failed m w =
     (Inl (APIError (''Could not fetch exchange rates: '' @ m)),
      emit (LogError (''Failed to fetch rates: '' @ m)) w)"

text \<open>
  The right-hand side of \<^verbatim>\<open>expires_at = datetime.now() + timedelta(seconds=...)\<close>.
\<close>

definition expiry :: "'f builtins \<Rightarrow> datetime \<Rightarrow> int \<Rightarrow> error + datetime" where
  "expiry py t n =
     (case timedelta_seconds py n of
        Inl e \<Rightarrow> Inl e
      | Inr delta \<Rightarrow> datetime_add py t delta)"

text \<open>
  \<^verbatim>\<open>get_exchange_rates\<close>. The load is outside the \<^verbatim>\<open>try\<close>; the request to the provider,
  the computation of the expiry and the save are inside it, so an exception of any of
  the three ends in the \<^verbatim>\<open>except\<close> clause.
\<close>

definition get_exchange_rates ::
  "'f builtins \<Rightarrow> 'f converter \<Rightarrow> string \<Rightarrow> 'f world \<Rightarrow> (error + 'f rates_dict) \<times> 'f world" where
  "get_exchange_rates py self base_currency0 w =
     (let base_currency = upper base_currency0
      in case load_cached_rates self base_currency w of
           (Inl e, w1) \<Rightarrow> (Inl e, w1)
         | (Inr (Some cached_data), w1) \<Rightarrow>
             (Inr cached_data, emit (LogInfo (''Using cached rates for '' @ base_currency)) w1)
         | (Inr None, w1) \<Rightarrow>
             (let w2 = emit (LogInfo (''Fetching fresh rates for '' @ base_currency)) w1;
                  w3 = emit (GetRates base_currency) w2;
                  (answer, finished) = get_rates (api_client self) base_currency (now w3);
                  w4 = w3\<lparr>now := finished\<rparr>
              in case answer of
                   Inl m \<Rightarrow> fetch_failed m w4
                 | Inr r \<Rightarrow>
                     (case expiry py (now w4) (cache_timeout (api_client self)) of
                        Inl e \<Rightarrow> fetch_failed (str_error e) w4
                      | Inr expires \<Rightarrow>
                          (case save_rates_to_cache py self base_currency r expires w4 of
                             (Inl e, w5) \<Rightarrow> fetch_failed (str_error e) w5
                           | (Inr u, w5) \<Rightarrow> (Inr r, w5)))))"

text \<open>\<^verbatim>\<open>convert\<close>, with its optional argument \<^verbatim>\<open>date\<close>.\<close>

definition convert ::
  "'f builtins \<Rightarrow> 'f converter \<Rightarrow> 'f amount \<Rightarrow> string \<Rightarrow> string \<Rightarrow> string option \<Rightarrow> 'f world
     \<Rightarrow> (error + 'f) \<times> 'f world" where
  "convert py self amount from_currency0 to_currency0 date_arg w =
     (case py_float py amount of
        None \<Rightarrow> (Inl (ValueError ''Amount must be a number''), w)
      | Some x \<Rightarrow>
          (let from_currency = upper from_currency0;
               to_currency = upper to_currency0
           in if from_currency = to_currency then (Inr x, w)
              else case get_exchange_rates py self from_currency w of
                     (Inl e, w1) \<Rightarrow> (Inl e, w1)
                   | (Inr r, w1) \<Rightarrow>
                       (case rates r to_currency of
                          None \<Rightarrow>
                            (Inl (InvalidCurrencyError
                                    (''Currency '' @ to_currency @ '' not found in rates'')), w1)
                        | Some rate \<Rightarrow> (Inr (float_mul py x rate), w1))))"

section \<open>Observations on a run\<close>

text \<open>The bases the provider was asked for, in the order of the requests.\<close>

fun fetches :: "event list \<Rightarrow> string list" where
  "fetches [] = []"
| "fetches (GetRates b # es) = b # fetches es"
| "fetches (e # es) = fetches es"

text \<open>
  The property the specification asks of a snapshot: every key of its rates mapping is
  an uppercase code, and its own base is not among the keys. (That the keys are unique is
  part of being a dictionary.) \<open>cache_inv\<close> asks it of every dictionary in the cache
  directory, \<open>provider_inv\<close> of every answer of the provider.
\<close>

definition snapshot_inv :: "'f rates_dict \<Rightarrow> bool" where
  "snapshot_inv s \<longleftrightarrow> (\<forall>k \<in> dom (rates s). upper k = k) \<and> base s \<notin> dom (rates s)"

definition cache_inv :: "'f world \<Rightarrow> bool" where
  "cache_inv w \<longleftrightarrow> (\<forall>p s. files w p = Some (Entry s) \<longrightarrow> snapshot_inv s)"

definition provider_inv :: "'f api_client \<Rightarrow> bool" where
  "provider_inv api \<longleftrightarrow> (\<forall>b t r t'. get_rates api b t = (Inr r, t') \<longrightarrow> snapshot_inv r)"

section \<open>A concrete setting for the examples\<close>

text \<open>
  Examples are run with the rationals for floats, a \<^verbatim>\<open>float(s)\<close> that reads
  \<^verbatim>\<open>'10'\<close> and \<^verbatim>\<open>'2.5'\<close> and rejects every other string, and a fixed day.
\<close>

definition py0 :: "rat builtins" where
  "py0 = \<lparr>float_of_str = (\<lambda>s. if s = ''10'' then Some 10
                               else if s = ''2.5'' then Some (5 / 2) else None),
          float_mul = (\<lambda>x y. x * y),
          str_of_date = (\<lambda>t. ''2024-01-15''),
          timedelta_overflow = (\<lambda>n. ''must have magnitude <= 999999999''),
          datetime_overflow = ''date value out of range''\<rparr>"

definition usd_answer :: "rat rates_dict" where
  "usd_answer = \<lparr>base = ''USD'', rates = [''EUR'' \<mapsto> 1 / 2, ''GBP'' \<mapsto> 1 / 4],
                 date = Some ''2024-01-14'', expires_at = None\<rparr>"

text \<open>A provider that answers for USD after two seconds and fails for any other base.\<close>

definition api0 :: "rat api_client" where
  "api0 = \<lparr>get_rates = (\<lambda>b t. (if b = ''USD'' then Inr usd_answer
                                  else Inl ''unsupported base'', t + 2000000)),
           cache_timeout = 3600\<rparr>"

definition conv0 :: "rat converter" where
  "conv0 = \<lparr>api_client = api0, cache_dir = ''.cache''\<rparr>"

text \<open>The same converter with a lifetime of 100000000000000 seconds, more than a \<^verbatim>\<open>timedelta\<close> holds.\<close>

definition conv_long :: "rat converter" where
  "conv_long = \<lparr>api_client = api0\<lparr>cache_timeout := 100000000000000\<rparr>, cache_dir = ''.cache''\<rparr>"

text \<open>An empty cache directory at clock reading 1000.\<close>

definition world0 :: "rat world" where
  "world0 = \<lparr>now = 1000, files = Map.empty, write_error = Map.empty, trace = []\<rparr>"

text \<open>What the first request for USD leaves behind in that directory.\<close>

definition world0_fetched :: "rat world" where
  "world0_fetched =
     \<lparr>now = 2001000,
      files = [''.cache/USD_rates.json'' \<mapsto> Entry (usd_answer\<lparr>expires_at := Some 3602001000\<rparr>)],
      write_error = Map.empty,
      trace = [FileExists ''.cache/USD_rates.json'', LogInfo ''Fetching fresh rates for USD'',
               GetRates ''USD'', OpenWrite ''.cache/USD_rates.json'']\<rparr>"

text \<open>A cache directory that holds rates for USD expiring at 5000, seen at clock reading \<open>t\<close>.\<close>

definition usd_entry :: "rat rates_dict" where
  "usd_entry = \<lparr>base = ''USD'', rates = [''EUR'' \<mapsto> 1 / 2, ''GBP'' \<mapsto> 1 / 4],
                date = Some ''2024-01-14'', expires_at = Some 5000\<rparr>"

definition world_cached :: "datetime \<Rightarrow> rat world" where
  "world_cached t = \<lparr>now = t, files = [''.cache/USD_rates.json'' \<mapsto> Entry usd_entry],
                     write_error = Map.empty, trace = []\<rparr>"

text \<open>An empty cache directory in which the file for USD cannot be opened for writing.\<close>

definition world_readonly :: "rat world" where
  "world_readonly =
     \<lparr>now = 1000, files = Map.empty,
      write_error = [''.cache/USD_rates.json'' \<mapsto> OpenFails ''[Errno 13] Permission denied''],
      trace = []\<rparr>"

text \<open>
  A cache directory that holds the same rates for USD, seen after their expiry, on a
  disk that is full: the file opens for writing and the write fails.
\<close>

definition world_full :: "rat world" where
  "world_full =
     \<lparr>now = 6000, files = [''.cache/USD_rates.json'' \<mapsto> Entry usd_entry],
      write_error = [''.cache/USD_rates.json'' \<mapsto>
        DumpFails ''[Errno 28] No space left on device''
          ''Expecting value: line 1 column 1 (char 0)''],
      trace = []\<rparr>"

text \<open>Cache directories whose file for USD is not JSON, or cannot be opened for reading.\<close>

definition world_garbled :: "rat world" where
  "world_garbled = \<lparr>now = 1000,
                    files = [''.cache/USD_rates.json'' \<mapsto> Malformed ''Expecting value: line 1 column 1 (char 0)''],
                    write_error = Map.empty, trace = []\<rparr>"

definition world_unreadable :: "rat world" where
  "world_unreadable =
     \<lparr>now = 1000,
      files = [''.cache/USD_rates.json'' \<mapsto> Unreadable ''[Errno 13] Permission denied''],
      write_error = Map.empty, trace = []\<rparr>"

text \<open>
  A provider whose answer for USD lists USD itself among the rates and has a lowercase
  key.
\<close>

definition usd_answer1 :: "rat rates_dict" where
  "usd_answer1 = \<lparr>base = ''USD'', rates = [''USD'' \<mapsto> 1, ''eur'' \<mapsto> 1 / 2],
                  date = Some ''2024-01-14'', expires_at = None\<rparr>"

definition api1 :: "rat api_client" where
  "api1 = \<lparr>get_rates = (\<lambda>b t. (Inr usd_answer1, t + 2000000)), cache_timeout = 3600\<rparr>"

definition conv1 :: "rat converter" where
  "conv1 = \<lparr>api_client = api1, cache_dir = ''.cache''\<rparr>"

section \<open>Basic facts\<close>

subsection \<open>Uppercasing\<close>

lemma upper_usd: "upper ''usd'' = ''USD''"
  by code_simp

lemma upper_USD: "upper ''USD'' = ''USD''"
  by code_simp

lemma upper_eur: "upper ''eur'' = ''EUR''"
  by code_simp

lemma upper_EUR: "upper ''EUR'' = ''EUR''"
  by code_simp

lemma upper_GBP: "upper ''GBP'' = ''GBP''"
  by code_simp

lemma upper_zzz: "upper ''zzz'' = ''ZZZ''"
  by code_simp

lemma upper_char_idem: "upper_char (upper_char c) = upper_char c"
proof (cases "97 \<le> (of_char c :: nat) \<and> (of_char c :: nat) \<le> 122")
  case True
  then have u: "upper_char c = char_of (of_char c - 32 :: nat)"
    by (simp add: upper_char_def Let_def)
  from True have "(of_char c - 32 :: nat) < 256"
    by arith
  then have "(of_char c - 32 :: nat) mod 256 = of_char c - 32"
    by (rule mod_less)
  then have "(of_char (char_of (of_char c - 32 :: nat)) :: nat) = of_char c - 32"
    by simp
  moreover from True have "\<not> 97 \<le> (of_char c - 32 :: nat)"
    by arith
  ultimately have "upper_char (char_of (of_char c - 32 :: nat)) = char_of (of_char c - 32 :: nat)"
    by (simp add: upper_char_def Let_def)
  with u show ?thesis
    by simp
next
  case False
  then have "upper_char c = c"
    by (auto simp add: upper_char_def Let_def)
  then show ?thesis
    by simp
qed

lemma upper_idem: "upper (upper s) = upper s"
  by (simp add: upper_def upper_char_idem)

lemma get_cache_file_upper: "get_cache_file self (upper b) = get_cache_file self b"
  by (simp add: get_cache_file_def upper_idem)

subsection \<open>What a logged event leaves alone\<close>

lemma now_emit: "now (emit e w) = now w"
  by (simp add: emit_def)

lemma files_emit: "files (emit e w) = files w"
  by (simp add: emit_def)

lemma write_error_emit: "write_error (emit e w) = write_error w"
  by (simp add: emit_def)

lemma trace_emit: "trace (emit e w) = trace w @ [e]"
  by (simp add: emit_def)

lemma fetches_append: "fetches (xs @ ys) = fetches xs @ fetches ys"
  by (induction xs rule: fetches.induct) simp_all

subsection \<open>Loading and saving\<close>

lemma files_load: "files (snd (load_cached_rates self b w)) = files w"
  by (simp add: load_cached_rates_def Let_def files_emit
      split: option.splits contents.splits)

lemma now_load: "now (snd (load_cached_rates self b w)) = now w"
  by (simp add: load_cached_rates_def Let_def now_emit
      split: option.splits contents.splits)

lemma write_error_load: "write_error (snd (load_cached_rates self b w)) = write_error w"
  by (simp add: load_cached_rates_def Let_def write_error_emit
      split: option.splits contents.splits)

lemma fetches_load: "fetches (trace (snd (load_cached_rates self b w))) = fetches (trace w)"
  by (simp add: load_cached_rates_def Let_def trace_emit fetches_append
      split: option.splits contents.splits)

lemma load_missing:
  "files w (get_cache_file self b) = None \<Longrightarrow>
     load_cached_rates self b w = (Inr None, emit (FileExists (get_cache_file self b)) w)"
  by (simp add: load_cached_rates_def Let_def files_emit)

lemma load_raises:
  "fst (load_cached_rates self (upper b) w) = Inl e \<Longrightarrow>
     get_exchange_rates py self b w = (Inl e, snd (load_cached_rates self (upper b) w))"
  by (cases "load_cached_rates self (upper b) w") (simp add: get_exchange_rates_def)

lemma save_writable:
  "write_error w (get_cache_file self b) = None \<Longrightarrow>
     save_rates_to_cache py self b r e w =
       (Inr (),
        (emit (OpenWrite (get_cache_file self b)) w)
          \<lparr>files := (files w)(get_cache_file self b \<mapsto>
             Entry \<lparr>base = base r, rates = rates r,
                    date = Some (case date r of Some d \<Rightarrow> d | None \<Rightarrow> str_of_date py (now w)),
                    expires_at = Some e\<rparr>)\<rparr>)"
  by (simp add: save_rates_to_cache_def Let_def write_error_emit files_emit)

lemma save_open_fails:
  "write_error w (get_cache_file self b) = Some (OpenFails m) \<Longrightarrow>
     save_rates_to_cache py self b r e w =
       (Inl (OSError m), emit (OpenWrite (get_cache_file self b)) w)"
  by (simp add: save_rates_to_cache_def Let_def write_error_emit)

lemma save_dump_fails:
  "write_error w (get_cache_file self b) = Some (DumpFails m left) \<Longrightarrow>
     save_rates_to_cache py self b r e w =
       (Inl (OSError m),
        (emit (OpenWrite (get_cache_file self b)) w)
          \<lparr>files := (files w)(get_cache_file self b \<mapsto> Malformed left)\<rparr>)"
  by (simp add: save_rates_to_cache_def Let_def write_error_emit files_emit)

lemma save_fails:
  "write_error w (get_cache_file self b) = Some f \<Longrightarrow>
     fst (save_rates_to_cache py self b r e w) = Inl (OSError (failure_str f))"
  by (cases f) (simp_all add: save_open_fails save_dump_fails)

lemma save_result:
  "fst (save_rates_to_cache py self b r e w) =
     (case write_error w (get_cache_file self b) of
        None \<Rightarrow> Inr ()
      | Some f \<Rightarrow> Inl (OSError (failure_str f)))"
  by (cases "write_error w (get_cache_file self b)") (simp_all add: save_writable save_fails)

lemma fetches_save:
  "fetches (trace (snd (save_rates_to_cache py self b r e w))) = fetches (trace w)"
  by (simp add: save_rates_to_cache_def Let_def emit_def fetches_append
      split: option.splits write_failure.splits)

lemma files_save:
  "files (snd (save_rates_to_cache py self b r e w)) = files w \<or>
   (\<exists>left. files (snd (save_rates_to_cache py self b r e w)) =
      (files w)(get_cache_file self b \<mapsto> Malformed left)) \<or>
   files (snd (save_rates_to_cache py self b r e w)) =
     (files w)(get_cache_file self b \<mapsto>
        Entry \<lparr>base = base r, rates = rates r,
               date = Some (case date r of Some d \<Rightarrow> d | None \<Rightarrow> str_of_date py (now w)),
               expires_at = Some e\<rparr>)"
proof (cases "write_error w (get_cache_file self b)")
  case None
  then show ?thesis
    by (simp add: save_writable)
next
  case (Some f)
  show ?thesis
  proof (cases f)
    case (OpenFails m)
    with Some show ?thesis
      by (simp add: save_open_fails files_emit)
  next
    case (DumpFails m left)
    with Some have "files (snd (save_rates_to_cache py self b r e w)) =
                      (files w)(get_cache_file self b \<mapsto> Malformed left)"
      by (simp add: save_dump_fails)
    then show ?thesis
      by blast
  qed
qed

subsection \<open>The expiry\<close>

lemma expiry_in_range:
  assumes "abs (n div 86400) \<le> 999999999"
    and "0 \<le> t + n * 1000000"
    and "t + n * 1000000 < datetime_max"
  shows "expiry py t n = Inr (t + n * 1000000)"
  using assms by (simp add: expiry_def timedelta_seconds_def datetime_add_def)

lemma expiry_hour: "expiry py0 2001000 3600 = Inr 3602001000"
  by (simp add: expiry_def timedelta_seconds_def datetime_add_def datetime_max_def)

text \<open>
  A lifetime too long for a \<^verbatim>\<open>timedelta\<close>, and one that leads past year 9999, raise
  \<^verbatim>\<open>OverflowError\<close>; inside \<^verbatim>\<open>get_exchange_rates\<close> that ends the call after the fetch with
  nothing stored.
\<close>

lemma expiry_overflow:
  "expiry py0 2001000 100000000000000 = Inl (OverflowError ''must have magnitude <= 999999999'')"
  "expiry py0 2001000 400000000000 = Inl (OverflowError ''date value out of range'')"
  by (simp_all add: expiry_def timedelta_seconds_def datetime_add_def datetime_max_def py0_def)

lemma long_lifetime_fails:
  "fst (get_exchange_rates py0 conv_long ''USD'' world0) =
     Inl (APIError ''Could not fetch exchange rates: must have magnitude <= 999999999'') \<and>
   fetches (trace (snd (get_exchange_rates py0 conv_long ''USD'' world0))) = [''USD''] \<and>
   files (snd (get_exchange_rates py0 conv_long ''USD'' world0)) = Map.empty"
  by (simp add: get_exchange_rates_def load_cached_rates_def get_cache_file_def Let_def upper_USD
      emit_def world0_def conv_long_def api0_def expiry_overflow fetch_failed_def)

subsection \<open>The examples\<close>

lemma conv0_fields: "api_client conv0 = api0" "cache_dir conv0 = ''.cache''"
  by (simp_all add: conv0_def)

lemma conv1_fields: "api_client conv1 = api1" "cache_dir conv1 = ''.cache''"
  by (simp_all add: conv1_def)

lemma cache_file_conv0: "get_cache_file conv0 ''USD'' = ''.cache/USD_rates.json''"
  by (simp add: get_cache_file_def conv0_def upper_USD)

lemma cache_file_conv1: "get_cache_file conv1 ''USD'' = ''.cache/USD_rates.json''"
  by (simp add: get_cache_file_def conv1_def upper_USD)

lemma first_call_USD:
  "get_exchange_rates py0 conv0 ''USD'' world0 = (Inr usd_answer, world0_fetched)"
  by (simp add: get_exchange_rates_def Let_def upper_USD cache_file_conv0 load_missing
      save_writable emit_def world0_def world0_fetched_def conv0_fields api0_def
      usd_answer_def expiry_hour)

lemma snapshot_inv_usd_answer: "snapshot_inv usd_answer"
  by (simp add: snapshot_inv_def usd_answer_def upper_EUR upper_GBP)

lemma snapshot_inv_usd_entry: "snapshot_inv usd_entry"
  by (simp add: snapshot_inv_def usd_entry_def upper_EUR upper_GBP)

section \<open>Identity conversion\<close>

text \<open>
  C1. When \<^verbatim>\<open>float(amount)\<close> succeeds with \<open>x\<close> and both currency arguments are the same
  code, \<^verbatim>\<open>convert\<close> returns \<open>x\<close> itself, without a multiplication, and leaves the world as
  it found it: no cache file is tested, read or written and the provider is not asked.
\<close>

theorem convert_identity:
  "py_float py a = Some x \<Longrightarrow>
     convert py self a c c d w = (Inr x, w) \<and> trace (snd (convert py self a c c d w)) = trace w"
  by (simp add: convert_def)

theorem convert_identity_witness:
  "py_float py0 (Str ''2.5'') = Some (5 / 2) \<and>
   convert py0 conv0 (Str ''2.5'') ''usd'' ''usd'' None world0 = (Inr (5 / 2), world0) \<and>
   trace (snd (convert py0 conv0 (Str ''2.5'') ''usd'' ''usd'' None world0)) = trace world0"
proof -
  have h: "py_float py0 (Str ''2.5'') = Some (5 / 2)"
    by (simp add: py0_def)
  show ?thesis
    using h convert_identity [OF h, of conv0 "''usd''" None world0] by simp
qed

section \<open>Freshness of a cached entry\<close>

text \<open>
  C2. When the cache file of a base currency holds a dictionary that expires at \<open>e\<close>,
  \<^verbatim>\<open>_load_cached_rates\<close> returns that dictionary if the clock is strictly before \<open>e\<close> and
  \<^verbatim>\<open>None\<close> if the clock is at or after \<open>e\<close>; either way the files are left as they were,
  so a stale entry stays in place.
\<close>

theorem load_cached_rates_fresh:
  assumes "files w (get_cache_file self b) = Some (Entry s)"
    and "expires_at s = Some e"
  shows "fst (load_cached_rates self b w) = (if now w < e then Inr (Some s) else Inr None) \<and>
         files (snd (load_cached_rates self b w)) = files w"
  using assms by (simp add: load_cached_rates_def Let_def now_emit files_emit)

theorem load_cached_rates_fresh_witness:
  "files (world_cached 4999) (get_cache_file conv0 ''USD'') = Some (Entry usd_entry) \<and>
   expires_at usd_entry = Some 5000 \<and>
   fst (load_cached_rates conv0 ''USD'' (world_cached 4999)) = Inr (Some usd_entry) \<and>
   fst (load_cached_rates conv0 ''USD'' (world_cached 5000)) = Inr None \<and>
   files (snd (load_cached_rates conv0 ''USD'' (world_cached 5000))) = files (world_cached 5000)"
proof -
  have f: "files (world_cached t) (get_cache_file conv0 ''USD'') = Some (Entry usd_entry)" for t
    by (simp add: world_cached_def cache_file_conv0)
  have e: "expires_at usd_entry = Some 5000"
    by (simp add: usd_entry_def)
  show ?thesis
    using f e load_cached_rates_fresh [OF f e, of 4999] load_cached_rates_fresh [OF f e, of 5000]
    by (simp add: world_cached_def)
qed

section \<open>Fetching once and serving from the cache\<close>

text \<open>
  C3. Let the cache hold no file for \<open>X\<close>, let the provider answer the request for
  \<open>upper X\<close> with the dictionary \<open>r\<close> at clock reading \<open>t1\<close>, let the lifetime
  \<open>cache_timeout\<close> be one for which \<open>t1\<close> plus that many seconds is a \<^verbatim>\<open>datetime\<close> Python can
  represent, and let the cache file open for writing and take the text. Then
  \<^verbatim>\<open>get_exchange_rates(X)\<close> returns \<open>r\<close>, asks the provider exactly once, for \<open>upper X\<close>,
  and leaves in the cache file a dictionary with the base and rates of \<open>r\<close> whose expiry
  is the clock reading after the fetch plus \<open>cache_timeout\<close> seconds. A second call at any
  clock reading \<open>t\<close> strictly before that expiry returns the stored dictionary and does
  not ask the provider.
\<close>

theorem get_exchange_rates_fetch_once:
  assumes "files w (get_cache_file self X) = None"
    and "get_rates (api_client self) (upper X) (now w) = (Inr r, t1)"
    and "abs (cache_timeout (api_client self) div 86400) \<le> 999999999"
    and "0 \<le> t1 + cache_timeout (api_client self) * 1000000"
    and "t1 + cache_timeout (api_client self) * 1000000 < datetime_max"
    and "write_error w (get_cache_file self X) = None"
    and "get_exchange_rates py self X w = (res, w1)"
    and "t < t1 + cache_timeout (api_client self) * 1000000"
  shows "res = Inr r \<and>
         fetches (trace w1) = fetches (trace w) @ [upper X] \<and>
         now w1 = t1 \<and>
         (\<exists>s. files w1 (get_cache_file self X) = Some (Entry s) \<and>
              base s = base r \<and> rates s = rates r \<and>
              expires_at s = Some (now w1 + cache_timeout (api_client self) * 1000000) \<and>
              fst (get_exchange_rates py self X (w1\<lparr>now := t\<rparr>)) = Inr s) \<and>
         fetches (trace (snd (get_exchange_rates py self X (w1\<lparr>now := t\<rparr>)))) = fetches (trace w1)"
proof -
  let ?p = "get_cache_file self X"
  let ?e = "t1 + cache_timeout (api_client self) * 1000000"
  let ?s = "\<lparr>base = base r, rates = rates r,
             date = Some (case date r of Some d \<Rightarrow> d | None \<Rightarrow> str_of_date py t1),
             expires_at = Some ?e\<rparr>"
  let ?w3 = "emit (GetRates (upper X))
               (emit (LogInfo (''Fetching fresh rates for '' @ upper X))
                  (emit (FileExists ?p) w))"
  let ?w4 = "?w3\<lparr>now := t1\<rparr>"
  have e: "expiry py t1 (cache_timeout (api_client self)) = Inr ?e"
    using assms(3-5) by (rule expiry_in_range)
  have first: "get_exchange_rates py self X w =
                 (Inr r, (emit (OpenWrite ?p) ?w4)\<lparr>files := (files w)(?p \<mapsto> Entry ?s)\<rparr>)"
    using assms(1,2,6)
    by (simp add: get_exchange_rates_def Let_def get_cache_file_upper load_missing now_emit e
        save_writable write_error_emit files_emit cong: option.case_cong)
  with assms(7) have res: "res = Inr r"
    and w1: "w1 = (emit (OpenWrite ?p) ?w4)\<lparr>files := (files w)(?p \<mapsto> Entry ?s)\<rparr>"
    by simp_all
  have tr: "fetches (trace w1) = fetches (trace w) @ [upper X]"
    by (simp add: w1 trace_emit fetches_append)
  have clock: "now w1 = t1"
    by (simp add: w1 now_emit)
  have stored: "files w1 ?p = Some (Entry ?s)"
    by (simp add: w1)
  have load2: "load_cached_rates self (upper X) (w1\<lparr>now := t\<rparr>) =
                 (Inr (Some ?s), emit (OpenRead ?p) (emit (FileExists ?p) (w1\<lparr>now := t\<rparr>)))"
    using stored assms(8)
    by (simp add: load_cached_rates_def Let_def get_cache_file_upper files_emit now_emit)
  have second: "get_exchange_rates py self X (w1\<lparr>now := t\<rparr>) =
                  (Inr ?s, emit (LogInfo (''Using cached rates for '' @ upper X))
                             (emit (OpenRead ?p) (emit (FileExists ?p) (w1\<lparr>now := t\<rparr>))))"
    by (simp add: get_exchange_rates_def Let_def load2)
  have tr2: "fetches (trace (snd (get_exchange_rates py self X (w1\<lparr>now := t\<rparr>)))) =
               fetches (trace w1)"
    by (simp add: second trace_emit fetches_append)
  have "files w1 ?p = Some (Entry ?s) \<and> base ?s = base r \<and> rates ?s = rates r \<and>
        expires_at ?s = Some (now w1 + cache_timeout (api_client self) * 1000000) \<and>
        fst (get_exchange_rates py self X (w1\<lparr>now := t\<rparr>)) = Inr ?s"
    using stored clock second by simp
  then have ex: "\<exists>s. files w1 ?p = Some (Entry s) \<and> base s = base r \<and> rates s = rates r \<and>
        expires_at s = Some (now w1 + cache_timeout (api_client self) * 1000000) \<and>
        fst (get_exchange_rates py self X (w1\<lparr>now := t\<rparr>)) = Inr s"
    by blast
  from res tr clock ex tr2 show ?thesis
    by blast
qed

theorem get_exchange_rates_fetch_once_witness:
  "files world0 (get_cache_file conv0 ''usd'') = None \<and>
   get_rates (api_client conv0) (upper ''usd'') (now world0) = (Inr usd_answer, 2001000) \<and>
   abs (cache_timeout (api_client conv0) div 86400) \<le> 999999999 \<and>
   0 \<le> 2001000 + cache_timeout (api_client conv0) * 1000000 \<and>
   2001000 + cache_timeout (api_client conv0) * 1000000 < datetime_max \<and>
   write_error world0 (get_cache_file conv0 ''usd'') = None \<and>
   (5000000::int) < 2001000 + cache_timeout (api_client conv0) * 1000000 \<and>
   fst (get_exchange_rates py0 conv0 ''usd'' world0) = Inr usd_answer \<and>
   fetches (trace (snd (get_exchange_rates py0 conv0 ''usd'' world0))) = [''USD''] \<and>
   fetches (trace (snd (get_exchange_rates py0 conv0 ''usd''
      ((snd (get_exchange_rates py0 conv0 ''usd'' world0))\<lparr>now := 5000000\<rparr>)))) = [''USD'']"
proof -
  have h1: "files world0 (get_cache_file conv0 ''usd'') = None"
    by (simp add: world0_def)
  have h2: "get_rates (api_client conv0) (upper ''usd'') (now world0) = (Inr usd_answer, 2001000)"
    by (simp add: conv0_fields api0_def upper_usd world0_def)
  have h3: "abs (cache_timeout (api_client conv0) div 86400) \<le> 999999999"
    by (simp add: conv0_fields api0_def)
  have h4: "0 \<le> 2001000 + cache_timeout (api_client conv0) * 1000000"
    by (simp add: conv0_fields api0_def)
  have h5: "2001000 + cache_timeout (api_client conv0) * 1000000 < datetime_max"
    by (simp add: conv0_fields api0_def datetime_max_def)
  have h6: "write_error world0 (get_cache_file conv0 ''usd'') = None"
    by (simp add: world0_def)
  have h7: "get_exchange_rates py0 conv0 ''usd'' world0 =
              (fst (get_exchange_rates py0 conv0 ''usd'' world0),
               snd (get_exchange_rates py0 conv0 ''usd'' world0))"
    by simp
  have h8: "(5000000::int) < 2001000 + cache_timeout (api_client conv0) * 1000000"
    by (simp add: conv0_fields api0_def)
  have t0: "fetches (trace world0) = []"
    by (simp add: world0_def)
  show ?thesis
    using h1 h2 h3 h4 h5 h6 h8 get_exchange_rates_fetch_once [OF h1 h2 h3 h4 h5 h6 h7 h8]
    by (simp add: t0 upper_usd)
qed

section \<open>A cache file that cannot be written\<close>

text \<open>
  The specification's reading of C4, that a failed store leaves the request successful,
  does not hold: with the cache file of USD closed to writing, the provider answers, the
  save raises \<^verbatim>\<open>OSError\<close>, and both \<^verbatim>\<open>get_exchange_rates\<close> and \<^verbatim>\<open>convert\<close> end with an
  exception instead of the fetched rates.
\<close>

theorem store_failure_counterexample:
  "fst (get_rates (api_client conv0) ''USD'' (now world_readonly)) = Inr usd_answer \<and>
   expiry py0 2001000 (cache_timeout (api_client conv0)) = Inr 3602001000 \<and>
   fst (save_rates_to_cache py0 conv0 ''USD'' usd_answer 3602001000 world_readonly) =
     Inl (OSError ''[Errno 13] Permission denied'') \<and>
   fst (get_exchange_rates py0 conv0 ''USD'' world_readonly) =
     Inl (APIError ''Could not fetch exchange rates: [Errno 13] Permission denied'') \<and>
   fst (convert py0 conv0 (Float 10) ''USD'' ''EUR'' None world_readonly) =
     Inl (APIError ''Could not fetch exchange rates: [Errno 13] Permission denied'')"
  by (simp add: convert_def get_exchange_rates_def Let_def upper_USD upper_EUR cache_file_conv0
      load_missing save_open_fails fetch_failed_def emit_def world_readonly_def conv0_fields
      api0_def expiry_hour)

text \<open>
  C4, as the code has it. The save is inside the \<^verbatim>\<open>try\<close> of \<^verbatim>\<open>get_exchange_rates\<close>, and
  its \<^verbatim>\<open>except\<close> clause ends the call with an exception for whatever was raised there.
  When the load finds nothing usable, the provider answers, the expiry can be
  represented, and writing the cache file fails, at \<^verbatim>\<open>open\<close> or after it, then
  \<^verbatim>\<open>get_exchange_rates\<close> does not return the fetched rates: it raises an exception whose
  message ends with the message of the failed write, and a \<^verbatim>\<open>convert\<close> between two
  different currencies that needs these rates raises the same exception and returns no
  number.
\<close>

theorem get_exchange_rates_store_failure:
  assumes "fst (load_cached_rates self (upper X) w) = Inr None"
    and "get_rates (api_client self) (upper X) (now w) = (Inr r, t1)"
    and "abs (cache_timeout (api_client self) div 86400) \<le> 999999999"
    and "0 \<le> t1 + cache_timeout (api_client self) * 1000000"
    and "t1 + cache_timeout (api_client self) * 1000000 < datetime_max"
    and "write_error w (get_cache_file self X) = Some f"
    and "py_float py a = Some x"
    and "upper X \<noteq> upper Y"
  shows "\<exists>e pre. fst (get_exchange_rates py self X w) = Inl e \<and>
           str_error e = pre @ failure_str f \<and>
           fst (convert py self a X Y d w) = Inl e"
proof -
  let ?e = "t1 + cache_timeout (api_client self) * 1000000"
  let ?m = "''Could not fetch exchange rates: '' @ failure_str f"
  obtain w1 where l: "load_cached_rates self (upper X) w = (Inr None, w1)"
    using assms(1) by (cases "load_cached_rates self (upper X) w") simp
  have w1: "now w1 = now w" "write_error w1 = write_error w"
    using now_load [of self "upper X" w] write_error_load [of self "upper X" w] l by simp_all
  have e: "expiry py t1 (cache_timeout (api_client self)) = Inr ?e"
    using assms(3-5) by (rule expiry_in_range)
  have g: "fst (get_exchange_rates py self X w) = Inl (APIError ?m)"
  proof (cases f)
    case (OpenFails m)
    with assms(2,6) show ?thesis
      by (simp add: get_exchange_rates_def Let_def l w1 now_emit write_error_emit e
          save_open_fails get_cache_file_upper fetch_failed_def)
  next
    case (DumpFails m left)
    with assms(2,6) show ?thesis
      by (simp add: get_exchange_rates_def Let_def l w1 now_emit write_error_emit e
          save_dump_fails get_cache_file_upper fetch_failed_def)
  qed
  have g': "get_exchange_rates py self (upper X) w = get_exchange_rates py self X w"
    by (simp add: get_exchange_rates_def upper_idem)
  have c: "fst (convert py self a X Y d w) = Inl (APIError ?m)"
    using assms(7,8) g
    by (cases "get_exchange_rates py self X w") (simp add: convert_def Let_def g')
  have "str_error (APIError ?m) = ''Could not fetch exchange rates: '' @ failure_str f"
    by simp
  with g c show ?thesis
    by blast
qed

theorem get_exchange_rates_store_failure_witness:
  "fst (load_cached_rates conv0 (upper ''USD'') world_readonly) = Inr None \<and>
   fst (load_cached_rates conv0 (upper ''USD'') world_full) = Inr None \<and>
   get_rates (api_client conv0) (upper ''USD'') (now world_readonly) = (Inr usd_answer, 2001000) \<and>
   get_rates (api_client conv0) (upper ''USD'') (now world_full) = (Inr usd_answer, 2006000) \<and>
   abs (cache_timeout (api_client conv0) div 86400) \<le> 999999999 \<and>
   0 \<le> 2001000 + cache_timeout (api_client conv0) * 1000000 \<and>
   2006000 + cache_timeout (api_client conv0) * 1000000 < datetime_max \<and>
   write_error world_readonly (get_cache_file conv0 ''USD'') =
     Some (OpenFails ''[Errno 13] Permission denied'') \<and>
   write_error world_full (get_cache_file conv0 ''USD'') =
     Some (DumpFails ''[Errno 28] No space left on device''
             ''Expecting value: line 1 column 1 (char 0)'') \<and>
   py_float py0 (Float 10) = Some 10 \<and>
   upper ''USD'' \<noteq> upper ''EUR'' \<and>
   (\<exists>e pre. fst (get_exchange_rates py0 conv0 ''USD'' world_readonly) = Inl e \<and>
      str_error e = pre @ ''[Errno 13] Permission denied'' \<and>
      fst (convert py0 conv0 (Float 10) ''USD'' ''EUR'' None world_readonly) = Inl e) \<and>
   (\<exists>e pre. fst (get_exchange_rates py0 conv0 ''USD'' world_full) = Inl e \<and>
      str_error e = pre @ ''[Errno 28] No space left on device'' \<and>
      fst (convert py0 conv0 (Float 10) ''USD'' ''EUR'' None world_full) = Inl e)"
proof -
  have h1: "fst (load_cached_rates conv0 (upper ''USD'') world_readonly) = Inr None"
    by (simp add: upper_USD cache_file_conv0 load_missing world_readonly_def)
  have h1': "fst (load_cached_rates conv0 (upper ''USD'') world_full) = Inr None"
    by (simp add: load_cached_rates_def Let_def upper_USD cache_file_conv0 emit_def
        world_full_def usd_entry_def)
  have h2: "get_rates (api_client conv0) (upper ''USD'') (now world_readonly) =
              (Inr usd_answer, 2001000)"
    by (simp add: conv0_fields api0_def upper_USD world_readonly_def)
  have h2': "get_rates (api_client conv0) (upper ''USD'') (now world_full) =
               (Inr usd_answer, 2006000)"
    by (simp add: conv0_fields api0_def upper_USD world_full_def)
  have h3: "abs (cache_timeout (api_client conv0) div 86400) \<le> 999999999"
    by (simp add: conv0_fields api0_def)
  have h4: "0 \<le> 2001000 + cache_timeout (api_client conv0) * 1000000"
    by (simp add: conv0_fields api0_def)
  have h4': "0 \<le> 2006000 + cache_timeout (api_client conv0) * 1000000"
    by (simp add: conv0_fields api0_def)
  have h5: "2001000 + cache_timeout (api_client conv0) * 1000000 < datetime_max"
    by (simp add: conv0_fields api0_def datetime_max_def)
  have h5': "2006000 + cache_timeout (api_client conv0) * 1000000 < datetime_max"
    by (simp add: conv0_fields api0_def datetime_max_def)
  have h6: "write_error world_readonly (get_cache_file conv0 ''USD'') =
              Some (OpenFails ''[Errno 13] Permission denied'')"
    by (simp add: cache_file_conv0 world_readonly_def)
  have h6': "write_error world_full (get_cache_file conv0 ''USD'') =
               Some (DumpFails ''[Errno 28] No space left on device''
                       ''Expecting value: line 1 column 1 (char 0)'')"
    by (simp add: cache_file_conv0 world_full_def)
  have h7: "py_float py0 (Float 10) = Some 10"
    by simp
  have h8: "upper ''USD'' \<noteq> upper ''EUR''"
    by (simp add: upper_USD upper_EUR)
  show ?thesis
    using h1 h1' h2 h2' h3 h4 h5' h6 h6' h7 h8
      get_exchange_rates_store_failure [OF h1 h2 h3 h4 h5 h6 h7 h8, where d = None]
      get_exchange_rates_store_failure [OF h1' h2' h3 h4' h5' h6' h7 h8, where d = None]
    by simp
qed

section \<open>A cache file that cannot be read\<close>

lemma fetches_after_miss:
  assumes "files w (get_cache_file self b) = None"
  shows "fetches (trace (snd (get_exchange_rates py self b w))) = fetches (trace w) @ [upper b]"
proof (cases "get_rates (api_client self) (upper b) (now w)")
  case (Pair answer t)
  show ?thesis
  proof (cases answer)
    case (Inl m)
    with Pair assms show ?thesis
      by (simp add: get_exchange_rates_def Let_def get_cache_file_upper load_missing now_emit
          fetch_failed_def trace_emit fetches_append)
  next
    case r: (Inr r)
    show ?thesis
    proof (cases "expiry py t (cache_timeout (api_client self))")
      case (Inl e)
      with Pair r assms show ?thesis
        by (simp add: get_exchange_rates_def Let_def get_cache_file_upper load_missing now_emit
            fetch_failed_def trace_emit fetches_append)
    next
      case (Inr expires)
      show ?thesis
      proof (cases "write_error w (get_cache_file self b)")
        case None
        with Pair r Inr assms show ?thesis
          by (simp add: get_exchange_rates_def Let_def get_cache_file_upper load_missing now_emit
              write_error_emit save_writable trace_emit fetches_append)
      next
        case (Some f)
        with Pair r Inr assms show ?thesis
          by (cases f)
            (simp_all add: get_exchange_rates_def Let_def get_cache_file_upper load_missing
              now_emit write_error_emit save_open_fails save_dump_fails fetch_failed_def
              trace_emit fetches_append)
      qed
    qed
  qed
qed

text \<open>
  The specification's reading of C5, that the load never raises, does not hold: with a
  cache file for USD that is not JSON, \<^verbatim>\<open>_load_cached_rates\<close> raises the
  \<^verbatim>\<open>JSONDecodeError\<close> of \<^verbatim>\<open>json.load\<close>, and \<^verbatim>\<open>get_exchange_rates\<close>, which calls it outside
  its \<^verbatim>\<open>try\<close>, raises the same exception without asking the provider.
\<close>

theorem load_malformed_counterexample:
  "files world_garbled (get_cache_file conv0 ''USD'') = Some (Malformed ''Expecting value: line 1 column 1 (char 0)'') \<and>
   fst (load_cached_rates conv0 ''USD'' world_garbled) = Inl (JSONDecodeError ''Expecting value: line 1 column 1 (char 0)'') \<and>
   fst (get_exchange_rates py0 conv0 ''USD'' world_garbled) =
     Inl (JSONDecodeError ''Expecting value: line 1 column 1 (char 0)'') \<and>
   fetches (trace (snd (get_exchange_rates py0 conv0 ''USD'' world_garbled))) = []"
  by (simp add: get_exchange_rates_def load_cached_rates_def Let_def upper_USD cache_file_conv0
      emit_def world_garbled_def)

text \<open>
  C5, as the code has it. A missing cache file is treated as absent: the load returns
  \<^verbatim>\<open>None\<close> without an exception and \<^verbatim>\<open>get_exchange_rates\<close> goes on to ask the provider
  once. A cache file that cannot be opened, or whose text is not JSON, is not treated
  as absent: the load raises \<^verbatim>\<open>OSError\<close> or \<^verbatim>\<open>JSONDecodeError\<close>, and
  \<^verbatim>\<open>get_exchange_rates\<close> raises the same exception and does not ask the provider.
\<close>

theorem load_cached_rates_raises:
  "(files w (get_cache_file self b) = None \<longrightarrow>
      fst (load_cached_rates self b w) = Inr None \<and>
      fetches (trace (snd (get_exchange_rates py self b w))) = fetches (trace w) @ [upper b]) \<and>
   (files w (get_cache_file self b) = Some (Unreadable m) \<longrightarrow>
      fst (load_cached_rates self b w) = Inl (OSError m) \<and>
      fst (get_exchange_rates py self b w) = Inl (OSError m) \<and>
      fetches (trace (snd (get_exchange_rates py self b w))) = fetches (trace w)) \<and>
   (files w (get_cache_file self b) = Some (Malformed m) \<longrightarrow>
      fst (load_cached_rates self b w) = Inl (JSONDecodeError m) \<and>
      fst (get_exchange_rates py self b w) = Inl (JSONDecodeError m) \<and>
      fetches (trace (snd (get_exchange_rates py self b w))) = fetches (trace w))"
proof (intro conjI impI)
  assume "files w (get_cache_file self b) = None"
  then show "fst (load_cached_rates self b w) = Inr None"
    by (simp add: load_missing)
next
  assume "files w (get_cache_file self b) = None"
  then show "fetches (trace (snd (get_exchange_rates py self b w))) = fetches (trace w) @ [upper b]"
    by (rule fetches_after_miss)
next
  assume a: "files w (get_cache_file self b) = Some (Unreadable m)"
  then show "fst (load_cached_rates self b w) = Inl (OSError m)"
    by (simp add: load_cached_rates_def Let_def files_emit)
next
  assume a: "files w (get_cache_file self b) = Some (Unreadable m)"
  then have "fst (load_cached_rates self (upper b) w) = Inl (OSError m)"
    by (simp add: load_cached_rates_def Let_def files_emit get_cache_file_upper)
  then have g: "get_exchange_rates py self b w =
                  (Inl (OSError m), snd (load_cached_rates self (upper b) w))"
    by (rule load_raises)
  then show "fst (get_exchange_rates py self b w) = Inl (OSError m)"
    by simp
next
  assume a: "files w (get_cache_file self b) = Some (Unreadable m)"
  then have "fst (load_cached_rates self (upper b) w) = Inl (OSError m)"
    by (simp add: load_cached_rates_def Let_def files_emit get_cache_file_upper)
  then have g: "get_exchange_rates py self b w =
                  (Inl (OSError m), snd (load_cached_rates self (upper b) w))"
    by (rule load_raises)
  show "fetches (trace (snd (get_exchange_rates py self b w))) = fetches (trace w)"
    by (simp add: g fetches_load)
next
  assume a: "files w (get_cache_file self b) = Some (Malformed m)"
  then show "fst (load_cached_rates self b w) = Inl (JSONDecodeError m)"
    by (simp add: load_cached_rates_def Let_def files_emit)
next
  assume a: "files w (get_cache_file self b) = Some (Malformed m)"
  then have "fst (load_cached_rates self (upper b) w) = Inl (JSONDecodeError m)"
    by (simp add: load_cached_rates_def Let_def files_emit get_cache_file_upper)
  then have g: "get_exchange_rates py self b w =
                  (Inl (JSONDecodeError m), snd (load_cached_rates self (upper b) w))"
    by (rule load_raises)
  then show "fst (get_exchange_rates py self b w) = Inl (JSONDecodeError m)"
    by simp
next
  assume a: "files w (get_cache_file self b) = Some (Malformed m)"
  then have "fst (load_cached_rates self (upper b) w) = Inl (JSONDecodeError m)"
    by (simp add: load_cached_rates_def Let_def files_emit get_cache_file_upper)
  then have g: "get_exchange_rates py self b w =
                  (Inl (JSONDecodeError m), snd (load_cached_rates self (upper b) w))"
    by (rule load_raises)
  show "fetches (trace (snd (get_exchange_rates py self b w))) = fetches (trace w)"
    by (simp add: g fetches_load)
qed

theorem load_cached_rates_raises_witness:
  "files world0 (get_cache_file conv0 ''USD'') = None \<and>
   fst (load_cached_rates conv0 ''USD'' world0) = Inr None \<and>
   fetches (trace (snd (get_exchange_rates py0 conv0 ''USD'' world0))) = [''USD''] \<and>
   files world_unreadable (get_cache_file conv0 ''USD'') =
     Some (Unreadable ''[Errno 13] Permission denied'') \<and>
   fst (get_exchange_rates py0 conv0 ''USD'' world_unreadable) =
     Inl (OSError ''[Errno 13] Permission denied'') \<and>
   fetches (trace (snd (get_exchange_rates py0 conv0 ''USD'' world_unreadable))) = [] \<and>
   files world_garbled (get_cache_file conv0 ''USD'') = Some (Malformed ''Expecting value: line 1 column 1 (char 0)'') \<and>
   fst (get_exchange_rates py0 conv0 ''USD'' world_garbled) =
     Inl (JSONDecodeError ''Expecting value: line 1 column 1 (char 0)'') \<and>
   fetches (trace (snd (get_exchange_rates py0 conv0 ''USD'' world_garbled))) = []"
proof -
  have h1: "files world0 (get_cache_file conv0 ''USD'') = None"
    by (simp add: world0_def)
  have h2: "files world_unreadable (get_cache_file conv0 ''USD'') =
              Some (Unreadable ''[Errno 13] Permission denied'')"
    by (simp add: world_unreadable_def cache_file_conv0)
  have h3: "files world_garbled (get_cache_file conv0 ''USD'') = Some (Malformed ''Expecting value: line 1 column 1 (char 0)'')"
    by (simp add: world_garbled_def cache_file_conv0)
  have t: "trace world0 = []" "trace world_unreadable = []" "trace world_garbled = []"
    by (simp_all add: world0_def world_unreadable_def world_garbled_def)
  show ?thesis
    using h1 h2 h3
      load_cached_rates_raises [of world0 conv0 "''USD''" py0 "''x''"]
      load_cached_rates_raises [of world_unreadable conv0 "''USD''" py0 "''[Errno 13] Permission denied''"]
      load_cached_rates_raises [of world_garbled conv0 "''USD''" py0 "''Expecting value: line 1 column 1 (char 0)''"]
    by (simp add: t upper_USD)
qed

section \<open>Amounts that are not numbers\<close>

text \<open>
  C6. When \<^verbatim>\<open>float(amount)\<close> raises \<^verbatim>\<open>ValueError\<close>, \<^verbatim>\<open>convert\<close> raises
  \<^verbatim>\<open>ValueError('Amount must be a number')\<close>, which is neither an \<^verbatim>\<open>APIError\<close> nor an
  \<^verbatim>\<open>InvalidCurrencyError\<close>, and the world is as it was: no cache file was touched and the
  provider was not asked.
\<close>

theorem convert_invalid_amount:
  "py_float py a = None \<Longrightarrow>
     convert py self a f t d w = (Inl (ValueError ''Amount must be a number''), w) \<and>
     fetches (trace (snd (convert py self a f t d w))) = fetches (trace w) \<and>
     ValueError ''Amount must be a number'' \<noteq> APIError m \<and>
     ValueError ''Amount must be a number'' \<noteq> InvalidCurrencyError m"
  by (simp add: convert_def)

theorem convert_invalid_amount_witness:
  "py_float py0 (Str ''abc'') = None \<and>
   convert py0 conv0 (Str ''abc'') ''USD'' ''EUR'' None world0 =
     (Inl (ValueError ''Amount must be a number''), world0)"
proof -
  have h: "py_float py0 (Str ''abc'') = None"
    by (simp add: py0_def)
  show ?thesis
    using h convert_invalid_amount [OF h, of conv0 "''USD''" "''EUR''" None world0] by simp
qed

section \<open>Looking up the target currency\<close>

text \<open>
  C7. Let \<^verbatim>\<open>float(amount)\<close> succeed with \<open>x\<close>, let the two currency codes differ after
  uppercasing, and let \<^verbatim>\<open>get_exchange_rates\<close> return the dictionary \<open>r\<close>. If the
  uppercased target is not a key of the rates of \<open>r\<close>, \<^verbatim>\<open>convert\<close> raises
  \<^verbatim>\<open>InvalidCurrencyError\<close> with a message that contains the uppercased target, and
  returns no number; otherwise it returns the product of \<open>x\<close> and the rate of the target,
  with nothing applied to the product.
\<close>

theorem convert_rate_lookup:
  assumes "py_float py a = Some x"
    and "upper f \<noteq> upper t"
    and "get_exchange_rates py self (upper f) w = (Inr r, w1)"
  shows "convert py self a f t d w =
           (case rates r (upper t) of
              None \<Rightarrow>
                (Inl (InvalidCurrencyError (''Currency '' @ upper t @ '' not found in rates'')), w1)
            | Some rate \<Rightarrow> (Inr (float_mul py x rate), w1))"
  using assms by (simp add: convert_def Let_def)

theorem convert_rate_lookup_witness:
  "py_float py0 (Str ''10'') = Some 10 \<and>
   upper ''usd'' \<noteq> upper ''eur'' \<and>
   upper ''usd'' \<noteq> upper ''zzz'' \<and>
   get_exchange_rates py0 conv0 (upper ''usd'') world0 = (Inr usd_answer, world0_fetched) \<and>
   convert py0 conv0 (Str ''10'') ''usd'' ''eur'' None world0 = (Inr 5, world0_fetched) \<and>
   convert py0 conv0 (Str ''10'') ''usd'' ''zzz'' None world0 =
     (Inl (InvalidCurrencyError ''Currency ZZZ not found in rates''), world0_fetched)"
proof -
  have h1: "py_float py0 (Str ''10'') = Some 10"
    by (simp add: py0_def)
  have h2: "upper ''usd'' \<noteq> upper ''eur''"
    by (simp add: upper_usd upper_eur)
  have h2': "upper ''usd'' \<noteq> upper ''zzz''"
    by (simp add: upper_usd upper_zzz)
  have h3: "get_exchange_rates py0 conv0 (upper ''usd'') world0 = (Inr usd_answer, world0_fetched)"
    by (simp add: upper_usd first_call_USD)
  have m: "float_mul py0 10 (1 / 2) = 5"
    by (simp add: py0_def)
  show ?thesis
    using h1 h2 h2' h3 convert_rate_lookup [OF h1 h2 h3, where d = None]
      convert_rate_lookup [OF h1 h2' h3, where d = None]
    by (simp add: upper_eur upper_zzz usd_answer_def m)
qed

section \<open>Saving, then loading\<close>



section \<open>The date argument\<close>

text \<open>
  C9. \<^verbatim>\<open>convert\<close> does not use its argument \<^verbatim>\<open>date\<close>: for any two values of it, absent
  or not, the call returns the same result and leaves the same world, with the same
  cache accesses and provider requests in its trace.
\<close>

theorem convert_ignores_date:
  "convert py self a f t d w = convert py self a f t d' w"
  by (simp add: convert_def)

section \<open>The keys of a stored rates mapping\<close>

lemma snapshot_inv_fields:
  "snapshot_inv \<lparr>base = base r, rates = rates r, date = d, expires_at = e\<rparr> = snapshot_inv r"
  by (simp add: snapshot_inv_def)

lemma cache_inv_update:
  "cache_inv w \<Longrightarrow> snapshot_inv s \<Longrightarrow> files w' = (files w)(p \<mapsto> Entry s) \<Longrightarrow> cache_inv w'"
  by (simp add: cache_inv_def)

lemma cache_inv_same: "cache_inv w \<Longrightarrow> files w' = files w \<Longrightarrow> cache_inv w'"
  by (simp add: cache_inv_def)

lemma cache_inv_truncated:
  "cache_inv w \<Longrightarrow> files w' = (files w)(p \<mapsto> Malformed m) \<Longrightarrow> cache_inv w'"
  by (simp add: cache_inv_def)

text \<open>
  The files after \<^verbatim>\<open>get_exchange_rates\<close>: as before, or with the cache file of the
  requested base cut short by a failed write, or with that file replaced by a dictionary
  that has the base and the rates of the provider's answer.
\<close>

lemma files_get_exchange_rates:
  "files (snd (get_exchange_rates py self X w)) = files w \<or>
   (\<exists>left. files (snd (get_exchange_rates py self X w)) =
      (files w)(get_cache_file self X \<mapsto> Malformed left)) \<or>
   (\<exists>r t d e. get_rates (api_client self) (upper X) (now w) = (Inr r, t) \<and>
      files (snd (get_exchange_rates py self X w)) =
        (files w)(get_cache_file self X \<mapsto>
           Entry \<lparr>base = base r, rates = rates r, date = d, expires_at = e\<rparr>))"
proof (cases "load_cached_rates self (upper X) w")
  case (Pair res w1)
  then have w1: "files w1 = files w" "now w1 = now w"
    using files_load [of self "upper X" w] now_load [of self "upper X" w] by simp_all
  show ?thesis
  proof (cases res)
    case (Inl e)
    with Pair w1 show ?thesis
      by (simp add: get_exchange_rates_def)
  next
    case (Inr cached)
    show ?thesis
    proof (cases cached)
      case (Some s)
      with Pair Inr w1 show ?thesis
        by (simp add: get_exchange_rates_def files_emit)
    next
      case None
      obtain answer t where a: "get_rates (api_client self) (upper X) (now w) = (answer, t)"
        by (cases "get_rates (api_client self) (upper X) (now w)")
      show ?thesis
      proof (cases answer)
        case (Inl m)
        with Pair Inr None w1 a show ?thesis
          by (simp add: get_exchange_rates_def Let_def now_emit files_emit fetch_failed_def)
      next
        case r: (Inr r)
        let ?w4 = "(emit (GetRates (upper X))
                     (emit (LogInfo (''Fetching fresh rates for '' @ upper X)) w1))\<lparr>now := t\<rparr>"
        have f4: "files ?w4 = files w"
          by (simp add: files_emit w1)
        show ?thesis
        proof (cases "expiry py t (cache_timeout (api_client self))")
          case (Inl e)
          with Pair Inr None w1 a r show ?thesis
            by (simp add: get_exchange_rates_def Let_def now_emit files_emit fetch_failed_def)
        next
          case ex: (Inr expires)
          obtain sres w5 where
            s: "save_rates_to_cache py self (upper X) r expires ?w4 = (sres, w5)"
            by (cases "save_rates_to_cache py self (upper X) r expires ?w4")
          have g: "files (snd (get_exchange_rates py self X w)) = files w5"
            using Pair Inr None a r ex s
            by (cases sres)
              (simp_all add: get_exchange_rates_def Let_def now_emit w1 fetch_failed_def
                files_emit)
          from files_save [of py self "upper X" r expires ?w4] s f4
          have "files w5 = files w \<or>
                (\<exists>left. files w5 = (files w)(get_cache_file self X \<mapsto> Malformed left)) \<or>
                files w5 = (files w)(get_cache_file self X \<mapsto>
                   Entry \<lparr>base = base r, rates = rates r,
                          date = Some (case date r of Some d \<Rightarrow> d
                                       | None \<Rightarrow> str_of_date py (now ?w4)),
                          expires_at = Some expires\<rparr>)"
            by (simp add: get_cache_file_upper)
          with g a r show ?thesis
            by auto
        qed
      qed
    qed
  qed
qed

text \<open>
  The dictionary \<^verbatim>\<open>get_exchange_rates\<close> returns: one the cache held, or the provider's
  answer.
\<close>

lemma get_exchange_rates_result:
  assumes "fst (get_exchange_rates py self X w) = Inr r"
  shows "(\<exists>p. files w p = Some (Entry r)) \<or>
         (\<exists>t. get_rates (api_client self) (upper X) (now w) = (Inr r, t))"
proof (cases "load_cached_rates self (upper X) w")
  case (Pair res w1)
  then have w1: "now w1 = now w"
    using now_load [of self "upper X" w] by simp
  show ?thesis
  proof (cases res)
    case (Inl e)
    with Pair assms show ?thesis
      by (simp add: get_exchange_rates_def)
  next
    case (Inr cached)
    show ?thesis
    proof (cases cached)
      case (Some s)
      with Pair Inr assms have "s = r"
        by (simp add: get_exchange_rates_def)
      moreover from Pair Inr Some have "files w (get_cache_file self (upper X)) = Some (Entry s)"
        by (auto simp add: load_cached_rates_def Let_def files_emit
            split: option.splits contents.splits if_splits)
      ultimately show ?thesis
        by blast
    next
      case None
      obtain answer t where a: "get_rates (api_client self) (upper X) (now w) = (answer, t)"
        by (cases "get_rates (api_client self) (upper X) (now w)")
      show ?thesis
      proof (cases answer)
        case (Inl m)
        with Pair Inr None w1 a assms show ?thesis
          by (simp add: get_exchange_rates_def Let_def now_emit fetch_failed_def)
      next
        case r': (Inr r')
        with Pair Inr None w1 a assms have "r' = r"
          by (auto simp add: get_exchange_rates_def Let_def now_emit fetch_failed_def
              split: prod.splits sum.splits)
        with a r' show ?thesis
          by blast
      qed
    qed
  qed
qed

lemma cache_inv_get_exchange_rates:
  assumes "provider_inv (api_client self)" and "cache_inv w"
  shows "cache_inv (snd (get_exchange_rates py self X w))"
proof -
  from files_get_exchange_rates [of py self X w]
  consider
    (same) "files (snd (get_exchange_rates py self X w)) = files w"
  | (cut) left where "files (snd (get_exchange_rates py self X w)) =
      (files w)(get_cache_file self X \<mapsto> Malformed left)"
  | (new) r t d e where "get_rates (api_client self) (upper X) (now w) = (Inr r, t)"
      "files (snd (get_exchange_rates py self X w)) =
         (files w)(get_cache_file self X \<mapsto>
            Entry \<lparr>base = base r, rates = rates r, date = d, expires_at = e\<rparr>)"
    by blast
  then show ?thesis
  proof cases
    case same
    with assms(2) show ?thesis
      by (rule cache_inv_same)
  next
    case cut
    with assms(2) show ?thesis
      by (rule cache_inv_truncated)
  next
    case new
    from assms(1) new(1) have "snapshot_inv r"
      unfolding provider_inv_def by blast
    then have "snapshot_inv \<lparr>base = base r, rates = rates r, date = d, expires_at = e\<rparr>"
      by (simp add: snapshot_inv_fields)
    with assms(2) show ?thesis
      using new(2) by (rule cache_inv_update)
  qed
qed

lemma snd_convert:
  "snd (convert py self a X Y d w) = w \<or>
   snd (convert py self a X Y d w) = snd (get_exchange_rates py self (upper X) w)"
  by (simp add: convert_def Let_def split: option.splits prod.splits sum.splits)

text \<open>
  The specification's reading of C10, that every stored snapshot has uppercase keys
  without its own base, does not hold: nothing in the code looks at the keys. Starting
  from an empty cache, with a provider whose answer for USD has the keys \<^verbatim>\<open>'USD'\<close> and
  \<^verbatim>\<open>'eur'\<close>, \<^verbatim>\<open>get_exchange_rates\<close> returns that answer and stores its rates as they are.
\<close>

theorem snapshot_inv_counterexample:
  "files world0 = Map.empty \<and>
   fst (get_exchange_rates py0 conv1 ''USD'' world0) = Inr usd_answer1 \<and>
   files (snd (get_exchange_rates py0 conv1 ''USD'' world0)) ''.cache/USD_rates.json'' =
     Some (Entry (usd_answer1\<lparr>expires_at := Some 3602001000\<rparr>)) \<and>
   base usd_answer1 = ''USD'' \<and>
   rates usd_answer1 ''USD'' = Some 1 \<and>
   rates usd_answer1 ''eur'' = Some (1 / 2) \<and>
   upper ''eur'' \<noteq> ''eur'' \<and>
   \<not> snapshot_inv (usd_answer1\<lparr>expires_at := Some 3602001000\<rparr>)"
  by (simp add: get_exchange_rates_def Let_def upper_USD upper_eur cache_file_conv1 load_missing
      save_writable emit_def world0_def conv1_fields api1_def usd_answer1_def expiry_hour
      snapshot_inv_def)

text \<open>
  C10, as the code has it. \<^verbatim>\<open>get_exchange_rates\<close> leaves the files as they were, or
  leaves the cache file of the requested base cut short by a failed write, or puts into
  that file a dictionary with the base and the rates of the provider's answer,
  unchanged. So when every answer of the provider has uppercase keys that do not include
  its base, and every dictionary in the cache has, then every dictionary in the cache has
  them after \<^verbatim>\<open>get_exchange_rates\<close>, after \<^verbatim>\<open>convert\<close>, and after saving a dictionary that
  has them, and so has every dictionary that \<^verbatim>\<open>get_exchange_rates\<close> returns.
\<close>

theorem snapshot_inv_preserved:
  assumes "provider_inv (api_client self)" and "cache_inv w"
  shows "(files (snd (get_exchange_rates py self X w)) = files w \<or>
          (\<exists>left. files (snd (get_exchange_rates py self X w)) =
             (files w)(get_cache_file self X \<mapsto> Malformed left)) \<or>
          (\<exists>r t' d' e'. get_rates (api_client self) (upper X) (now w) = (Inr r, t') \<and>
             files (snd (get_exchange_rates py self X w)) =
               (files w)(get_cache_file self X \<mapsto>
                  Entry \<lparr>base = base r, rates = rates r, date = d', expires_at = e'\<rparr>))) \<and>
         cache_inv (snd (get_exchange_rates py self X w)) \<and>
         (\<forall>r. fst (get_exchange_rates py self X w) = Inr r \<longrightarrow> snapshot_inv r) \<and>
         cache_inv (snd (convert py self a X Y d w)) \<and>
         (snapshot_inv s \<longrightarrow> cache_inv (snd (save_rates_to_cache py self b s e w)))"
proof (intro conjI allI impI)
  show "files (snd (get_exchange_rates py self X w)) = files w \<or>
          (\<exists>left. files (snd (get_exchange_rates py self X w)) =
             (files w)(get_cache_file self X \<mapsto> Malformed left)) \<or>
          (\<exists>r t' d' e'. get_rates (api_client self) (upper X) (now w) = (Inr r, t') \<and>
             files (snd (get_exchange_rates py self X w)) =
               (files w)(get_cache_file self X \<mapsto>
                  Entry \<lparr>base = base r, rates = rates r, date = d', expires_at = e'\<rparr>))"
    by (rule files_get_exchange_rates)
next
  show "cache_inv (snd (get_exchange_rates py self X w))"
    using assms by (rule cache_inv_get_exchange_rates)
next
  fix r
  assume "fst (get_exchange_rates py self X w) = Inr r"
  then have "(\<exists>p. files w p = Some (Entry r)) \<or>
             (\<exists>t. get_rates (api_client self) (upper X) (now w) = (Inr r, t))"
    by (rule get_exchange_rates_result)
  then show "snapshot_inv r"
    using assms unfolding provider_inv_def cache_inv_def by blast
next
  from snd_convert [of py self a X Y d w]
  show "cache_inv (snd (convert py self a X Y d w))"
    using assms cache_inv_get_exchange_rates [of self w py "upper X"] by auto
next
  assume s: "snapshot_inv s"
  let ?d = "\<lparr>base = base s, rates = rates s,
             date = Some (case date s of Some d \<Rightarrow> d | None \<Rightarrow> str_of_date py (now w)),
             expires_at = Some e\<rparr>"
  from files_save [of py self b s e w]
  consider
    (same) "files (snd (save_rates_to_cache py self b s e w)) = files w"
  | (cut) left where "files (snd (save_rates_to_cache py self b s e w)) =
      (files w)(get_cache_file self b \<mapsto> Malformed left)"
  | (new) "files (snd (save_rates_to_cache py self b s e w)) =
      (files w)(get_cache_file self b \<mapsto> Entry ?d)"
    by blast
  then show "cache_inv (snd (save_rates_to_cache py self b s e w))"
  proof cases
    case same
    with assms(2) show ?thesis
      by (rule cache_inv_same)
  next
    case cut
    with assms(2) show ?thesis
      by (rule cache_inv_truncated)
  next
    case new
    from s have "snapshot_inv ?d"
      by (simp add: snapshot_inv_fields)
    with assms(2) show ?thesis
      using new by (rule cache_inv_update)
  qed
qed

theorem snapshot_inv_preserved_witness:
  "provider_inv (api_client conv0) \<and>
   cache_inv (world_cached 6000) \<and>
   cache_inv (snd (get_exchange_rates py0 conv0 ''USD'' (world_cached 6000))) \<and>
   fst (get_exchange_rates py0 conv0 ''USD'' (world_cached 6000)) = Inr usd_answer \<and>
   snapshot_inv usd_answer \<and>
   cache_inv (snd (convert py0 conv0 (Float 10) ''USD'' ''EUR'' None (world_cached 6000))) \<and>
   cache_inv (snd (save_rates_to_cache py0 conv0 ''USD'' usd_answer 9000 (world_cached 6000)))"
proof -
  have h1: "provider_inv (api_client conv0)"
    by (simp add: provider_inv_def conv0_fields api0_def snapshot_inv_usd_answer)
  have h2: "cache_inv (world_cached 6000)"
    by (simp add: cache_inv_def world_cached_def snapshot_inv_usd_entry)
  have x: "expiry py0 2006000 3600 = Inr 3602006000"
    by (simp add: expiry_def timedelta_seconds_def datetime_add_def datetime_max_def)
  have g: "fst (get_exchange_rates py0 conv0 ''USD'' (world_cached 6000)) = Inr usd_answer"
    by (simp add: get_exchange_rates_def load_cached_rates_def Let_def upper_USD cache_file_conv0
        save_writable emit_def world_cached_def usd_entry_def conv0_fields api0_def x)
  show ?thesis
    using h1 h2 g snapshot_inv_usd_answer
      snapshot_inv_preserved [OF h1 h2, where py = py0 and X = "''USD''" and a = "Float 10"
        and Y = "''EUR''" and d = None and s = usd_answer and b = "''USD''" and e = 9000]
    by simp
qed

end
